theory Spec2Isabelle
  imports Main "HOL-Library.Word"
begin

section \<open>Python values used by generate\_prompts.py\<close>

text \<open>
  A Python \<open>str\<close> is a sequence of Unicode code points, so a string is modelled as a
  list of code points (natural numbers), not as a list of bytes: \<open>str.strip()\<close> removes
  Unicode whitespace and the success notice holds a code point beyond the Basic
  Multilingual Plane. \<open>lit\<close> turns an ASCII literal into such a string.
\<close>

type_synonym codepoint = nat
type_synonym pystr = "codepoint list"
type_synonym bytes = "8 word list"
type_synonym path = pystr

definition lit :: "string \<Rightarrow> pystr" where
  "lit s = map of_char s"

definition comma :: codepoint where
  "comma = 44"

definition dquote :: codepoint where
  "dquote = 34"

definition slash :: codepoint where
  "slash = 47"

definition newline :: codepoint where
  "newline = 10"

text \<open>
  \<open>str.isspace\<close> on one code point, as CPython's \<open>_PyUnicode_IsWhitespace\<close> lists
  them: the characters that \<open>str.strip()\<close> without argument removes.
\<close>

definition isspace :: "codepoint \<Rightarrow> bool" where
  "isspace c \<longleftrightarrow>
     (9 \<le> c \<and> c \<le> 13) \<or> (28 \<le> c \<and> c \<le> 32) \<or> c = 0x85 \<or> c = 0xA0 \<or> c = 0x1680 \<or>
     (0x2000 \<le> c \<and> c \<le> 0x200A) \<or> c = 0x2028 \<or> c = 0x2029 \<or> c = 0x202F \<or>
     c = 0x205F \<or> c = 0x3000"

text \<open>\<open>s.strip()\<close> and \<open>s.strip(chars)\<close>: drop from both ends while the predicate holds.\<close>

definition strip_ends :: "('a \<Rightarrow> bool) \<Rightarrow> 'a list \<Rightarrow> 'a list" where
  "strip_ends P s = rev (dropWhile P (rev (dropWhile P s)))"

definition py_strip :: "pystr \<Rightarrow> pystr" where
  "py_strip s = strip_ends isspace s"

definition py_strip_chars :: "pystr \<Rightarrow> pystr \<Rightarrow> pystr" where
  "py_strip_chars chars s = strip_ends (\<lambda>c. c \<in> set chars) s"

text \<open>
  \<open>s.split(sep, 1)\<close> for a one-character separator: one split at the first separator,
  or the whole string as the only element when there is none.
\<close>

definition py_split1 :: "codepoint \<Rightarrow> pystr \<Rightarrow> pystr list" where
  "py_split1 sep s =
     (if sep \<in> set s
      then [takeWhile (\<lambda>c. c \<noteq> sep) s, tl (dropWhile (\<lambda>c. c \<noteq> sep) s)]
      else [s])"

text \<open>\<open>str(n)\<close> for an integer: decimal digits, with a minus sign when negative.\<close>

fun digits :: "nat \<Rightarrow> pystr" where
  "digits n = (if n < 10 then [48 + n] else digits (n div 10) @ [48 + n mod 10])"

declare digits.simps [simp del]

definition py_str_int :: "int \<Rightarrow> pystr" where
  "py_str_int i = (if i < 0 then 45 # digits (nat (- i)) else digits (nat i))"

text \<open>
  \<open>os.path.join(a, b)\<close> of \<open>posixpath\<close>: an absolute second component replaces the
  first; otherwise the two are joined with one separator.
\<close>

definition os_path_join :: "path \<Rightarrow> path \<Rightarrow> path" where
  "os_path_join a b =
     (if b \<noteq> [] \<and> hd b = slash then b
      else if a = [] \<or> last a = slash then a @ b
      else a @ [slash] @ b)"

text \<open>
  Iterating over a file opened in text mode yields its lines, each with its terminating
  newline (the last one possibly without); the text is taken after the universal-newline
  translation.
\<close>

fun lines_from :: "pystr \<Rightarrow> pystr \<Rightarrow> pystr list" where
  "lines_from cur [] = (if cur = [] then [] else [cur])"
| "lines_from cur (c # cs) =
     (if c = newline then (cur @ [c]) # lines_from [] cs else lines_from (cur @ [c]) cs)"

definition file_lines :: "pystr \<Rightarrow> pystr list" where
  "file_lines content = lines_from [] content"

section \<open>The world the script acts on\<close>

datatype json_value = JString pystr | JObject "(pystr \<times> json_value) list"

record request =
  url :: pystr
  headers :: "(pystr \<times> pystr) list"
  json :: json_value

record response =
  status_code :: int
  content :: bytes
  resp_text :: pystr

datatype stream_target = Inherit | DEVNULL

text \<open>
  What running a child process does: it cannot be started, or it exits with a status,
  leaves the file system in some state and has written to its two streams.
\<close>

datatype proc_result =
  SpawnFailed
| Exited int "path \<rightharpoonup> bytes" pystr pystr

record world =
  files :: "path \<rightharpoonup> bytes"
  console :: "pystr list"
  requests :: "request list"
  commands :: "pystr list list"

text \<open>
  The collaborators outside the script: the speech API (\<open>None\<close> when the request raises
  instead of answering), whether a path can be opened for writing, and the behaviour of
  child processes.
\<close>

record env =
  http_post :: "request \<Rightarrow> response option"
  can_open_wb :: "path \<Rightarrow> bool"
  run_process :: "pystr list \<Rightarrow> (path \<rightharpoonup> bytes) \<Rightarrow> proc_result"

datatype exn = ConnectionError | OSError | FileNotFoundError | ValueError

text \<open>A call returns, or raises with the world as it was at the raise.\<close>

datatype outcome = Returned world | Raised exn world

text \<open>Projections, to read off what a call did.\<close>

fun world_of :: "outcome \<Rightarrow> world" where
  "world_of (Returned w) = w"
| "world_of (Raised x w) = w"

fun raised :: "outcome \<Rightarrow> exn option" where
  "raised (Returned w) = None"
| "raised (Raised x w) = Some x"


definition and_then :: "outcome \<Rightarrow> (world \<Rightarrow> outcome) \<Rightarrow> outcome" where
  "and_then r f = (case r of Returned w \<Rightarrow> f w | Raised e w \<Rightarrow> Raised e w)"

definition py_print :: "pystr \<Rightarrow> world \<Rightarrow> outcome" where
  "py_print s w = Returned (w\<lparr>console := console w @ [s]\<rparr>)"

definition open_wb_write :: "env \<Rightarrow> path \<Rightarrow> bytes \<Rightarrow> world \<Rightarrow> outcome" where
  "open_wb_write e p data w =
     (if can_open_wb e p then Returned (w\<lparr>files := (files w)(p \<mapsto> data)\<rparr>)
      else Raised OSError w)"

definition os_remove :: "path \<Rightarrow> world \<Rightarrow> outcome" where
  "os_remove p w =
     (if files w p \<noteq> None then Returned (w\<lparr>files := (files w)(p := None)\<rparr>)
      else Raised FileNotFoundError w)"

definition subprocess_run ::
  "env \<Rightarrow> pystr list \<Rightarrow> stream_target \<Rightarrow> stream_target \<Rightarrow> world \<Rightarrow> outcome" where
  "subprocess_run e command out err w =
     (case run_process e command (files w) of
        SpawnFailed \<Rightarrow> Raised OSError w
      | Exited code fs so se \<Rightarrow>
          Returned (w\<lparr>files := fs,
                      console := console w @ (if out = Inherit then [so] else [])
                                           @ (if err = Inherit then [se] else []),
                      commands := commands w @ [command]\<rparr>))"

definition requests_post ::
  "env \<Rightarrow> pystr \<Rightarrow> json_value \<Rightarrow> (pystr \<times> pystr) list \<Rightarrow> world \<Rightarrow> (response option \<times> world)" where
  "requests_post e u payload hs w =
     (let req = \<lparr>url = u, headers = hs, json = payload\<rparr>
      in (http_post e req, w\<lparr>requests := requests w @ [req]\<rparr>))"

section \<open>The script\<close>

definition API_KEY :: pystr where
  "API_KEY = lit ''APICODEHERE''"

definition VOICE_MODEL :: pystr where
  "VOICE_MODEL = lit ''aura-2-thalia-en''"

definition OUTPUT_DIR :: path where
  "OUTPUT_DIR = lit ''output_wav''"

text \<open>
  \<open>convert_to_ulaw\<close> (lines 22 to 34 of the script): the argument list is built from the
  two paths and the child process is run with both streams sent to \<open>DEVNULL\<close>; the
  completed process that \<open>subprocess.run\<close> returns is dropped.
\<close>

definition ffmpeg_command :: "path \<Rightarrow> path \<Rightarrow> pystr list" where
  "ffmpeg_command input_path output_path =
     [lit ''ffmpeg'', lit ''-y'', lit ''-i'', input_path, lit ''-ar'', lit ''8000'',
      lit ''-ac'', lit ''1'', lit ''-f'', lit ''wav'', lit ''-acodec'', lit ''pcm_mulaw'',
      output_path]"

definition convert_to_ulaw :: "env \<Rightarrow> path \<Rightarrow> path \<Rightarrow> world \<Rightarrow> outcome" where
  "convert_to_ulaw e input_path output_path w =
     subprocess_run e (ffmpeg_command input_path output_path) DEVNULL DEVNULL w"

text \<open>
  \<open>synthesize_prompt\<close> (lines 38 to 76): the two paths of lines 59 and 60, the URL, the
  headers, the two console lines, and the body of the function. The arguments are the
  prompt text first and the file name second.
\<close>

definition temp_path_of :: "pystr \<Rightarrow> path" where
  "temp_path_of filename = os_path_join OUTPUT_DIR (filename @ lit ''_temp.wav'')"

definition final_path_of :: "pystr \<Rightarrow> path" where
  "final_path_of filename = os_path_join OUTPUT_DIR (filename @ lit ''.wav'')"

definition speak_url :: pystr where
  "speak_url = lit ''https://api.deepgram.com/v1/speak?model='' @ VOICE_MODEL
                 @ lit ''&encoding=linear16&sample_rate=16000''"

definition speak_headers :: "(pystr \<times> pystr) list" where
  "speak_headers = [(lit ''Authorization'', lit ''Token '' @ API_KEY),
                    (lit ''Content-Type'', lit ''application/json'')]"

definition success_notice :: "path \<Rightarrow> pystr" where
  "success_notice final_path =
     [91, 0x1F3A7, 93] @ lit '' Saved Studio-ready: '' @ final_path"

definition error_notice :: "pystr \<Rightarrow> response \<Rightarrow> pystr" where
  "error_notice filename r =
     lit ''[!] Error for '' @ filename @ lit '': '' @ py_str_int (status_code r)
       @ lit '' - '' @ resp_text r"

definition synthesize_prompt :: "env \<Rightarrow> pystr \<Rightarrow> pystr \<Rightarrow> world \<Rightarrow> outcome" where
  "synthesize_prompt e prompt_text filename w =
     (let payload = JObject [(lit ''text'', JString prompt_text)]
      in case requests_post e speak_url payload speak_headers w of
           (None, w1) \<Rightarrow> Raised ConnectionError w1
         | (Some r, w1) \<Rightarrow>
             if status_code r = 200 then
               (let temp_path = temp_path_of filename;
                    final_path = final_path_of filename
                in and_then (open_wb_write e temp_path (content r) w1) (\<lambda>w2.
                   and_then (convert_to_ulaw e temp_path final_path w2) (\<lambda>w3.
                   and_then (os_remove temp_path w3) (\<lambda>w4.
                   py_print (success_notice final_path) w4))))
             else py_print (error_notice filename r) w1)"

text \<open>
  The main loop (lines 80 to 91). One turn up to the call: the line is cleaned, checked for
  a comma, split once and unpacked into two names; unpacking anything but two parts raises.
  The call passes the trimmed text first and the trimmed name second.
\<close>

datatype parsed = Skipped | Entry pystr pystr | UnpackError

definition clean_line :: "pystr \<Rightarrow> pystr" where
  "clean_line line = py_strip_chars [dquote] (py_strip line)"

definition parse_line :: "pystr \<Rightarrow> parsed" where
  "parse_line line0 =
     (let line = clean_line line0
      in if comma \<in> set line then
           (case py_split1 comma line of
              [name, text] \<Rightarrow> Entry (py_strip name) (py_strip text)
            | _ \<Rightarrow> UnpackError)
         else Skipped)"

definition loop_body :: "env \<Rightarrow> pystr \<Rightarrow> world \<Rightarrow> outcome" where
  "loop_body e line w =
     (case parse_line line of
        Skipped \<Rightarrow> Returned w
      | Entry name text \<Rightarrow> synthesize_prompt e text name w
      | UnpackError \<Rightarrow> Raised ValueError w)"

fun main_loop :: "env \<Rightarrow> pystr list \<Rightarrow> world \<Rightarrow> outcome" where
  "main_loop e [] w = Returned w"
| "main_loop e (line # rest) w = and_then (loop_body e line w) (main_loop e rest)"

text \<open>The entries the reader hands to synthesis, in line order.\<close>

fun entries :: "pystr list \<Rightarrow> (pystr \<times> pystr) list" where
  "entries [] = []"
| "entries (line # rest) =
     (case parse_line line of
        Entry name text \<Rightarrow> (name, text) # entries rest
      | _ \<Rightarrow> entries rest)"

section \<open>Sample environments\<close>

text \<open>
  Concrete collaborators on which the script is run below: a speech API that always gives
  the same answer, and child processes that leave a file at their last argument, touch
  nothing, or cannot be started.
\<close>

definition empty_world :: world where
  "empty_world = \<lparr>files = Map.empty, console = [], requests = [], commands = []\<rparr>"

definition api_answers :: "int \<Rightarrow> bytes \<Rightarrow> pystr \<Rightarrow> request \<Rightarrow> response option" where
  "api_answers st body txt req = Some \<lparr>status_code = st, content = body, resp_text = txt\<rparr>"

definition any_path_writable :: "path \<Rightarrow> bool" where
  "any_path_writable p = True"

definition tool_writes_output ::
  "int \<Rightarrow> bytes \<Rightarrow> pystr list \<Rightarrow> (path \<rightharpoonup> bytes) \<Rightarrow> proc_result" where
  "tool_writes_output code data command fs = Exited code (fs(last command \<mapsto> data)) [] []"

definition tool_touches_nothing :: "int \<Rightarrow> pystr list \<Rightarrow> (path \<rightharpoonup> bytes) \<Rightarrow> proc_result" where
  "tool_touches_nothing code command fs = Exited code fs (lit ''out'') (lit ''err'')"

definition tool_missing :: "pystr list \<Rightarrow> (path \<rightharpoonup> bytes) \<Rightarrow> proc_result" where
  "tool_missing command fs = SpawnFailed"

definition env_ok :: env where
  "env_ok = \<lparr>http_post = api_answers 200 [82, 73, 70, 70] [],
             can_open_wb = any_path_writable,
             run_process = tool_writes_output 0 [1, 2]\<rparr>"

definition env_unauthorized :: env where
  "env_unauthorized = \<lparr>http_post = api_answers 401 [] (lit ''unauthorized''),
                       can_open_wb = any_path_writable,
                       run_process = tool_writes_output 0 [1, 2]\<rparr>"

definition env_tool_fails_with_output :: env where
  "env_tool_fails_with_output = \<lparr>http_post = api_answers 200 [82, 73, 70, 70] [],
                                 can_open_wb = any_path_writable,
                                 run_process = tool_writes_output 1 []\<rparr>"

definition env_tool_fails_untouched :: env where
  "env_tool_fails_untouched = \<lparr>http_post = api_answers 200 [82, 73, 70, 70] [],
                               can_open_wb = any_path_writable,
                               run_process = tool_touches_nothing 1\<rparr>"

definition env_tool_missing :: env where
  "env_tool_missing = \<lparr>http_post = api_answers 200 [82, 73, 70, 70] [],
                       can_open_wb = any_path_writable,
                       run_process = tool_missing\<rparr>"

definition env_tool_noop :: env where
  "env_tool_noop = \<lparr>http_post = api_answers 200 [82, 73, 70, 70] [],
                    can_open_wb = any_path_writable,
                    run_process = tool_touches_nothing 0\<rparr>"

definition stale_world :: world where
  "stale_world = empty_world\<lparr>files := [final_path_of (lit ''greeting'') \<mapsto> [9, 9]]\<rparr>"

section \<open>Strings: trimming and splitting\<close>

lemma dropWhile_all_prefix: "\<forall>x\<in>set u. P x \<Longrightarrow> dropWhile P (u @ s) = dropWhile P s"
  by (induction u) auto

lemma set_dropWhile_keep: "x \<in> set s \<Longrightarrow> \<not> P x \<Longrightarrow> x \<in> set (dropWhile P s)"
  by (induction s) auto

lemma rstrip_keep:
  "\<not> P x \<Longrightarrow> rev (dropWhile P (rev (a @ x # t))) = a @ x # rev (dropWhile P (rev t))"
  by (simp add: dropWhile_append)

lemma rstrip_all_suffix:
  "\<forall>x\<in>set v. P x \<Longrightarrow> rev (dropWhile P (rev (s @ v))) = rev (dropWhile P (rev s))"
  by (simp add: dropWhile_all_prefix)

lemma strip_ends_Nil: "strip_ends P [] = []"
  by (simp add: strip_ends_def)



lemma strip_ends_fixed:
  assumes "s = [] \<or> (\<not> P (hd s) \<and> \<not> P (last s))"
  shows "strip_ends P s = s"
proof (cases s)
  case Nil
  then show ?thesis by (simp add: strip_ends_def)
next
  case (Cons x t)
  with assms have nx: "\<not> P (hd s)" and nl: "\<not> P (last s)"
    by simp_all
  have "hd (rev s) = last s"
    using Cons by (simp only: hd_rev)
  with nl have "dropWhile P (rev s) = rev s"
    by (simp only: dropWhile_eq_self_iff) simp
  moreover from nx have "dropWhile P s = s"
    by (simp only: dropWhile_eq_self_iff) simp
  ultimately show ?thesis
    by (simp only: strip_ends_def rev_rev_ident)
qed


lemma set_strip_ends_keep: "x \<in> set s \<Longrightarrow> \<not> P x \<Longrightarrow> x \<in> set (strip_ends P s)"
  by (simp add: strip_ends_def set_dropWhile_keep)

lemma set_strip_ends_subset: "x \<in> set (strip_ends P s) \<Longrightarrow> x \<in> set s"
proof -
  assume "x \<in> set (strip_ends P s)"
  then have "x \<in> set (dropWhile P (rev (dropWhile P s)))"
    by (simp add: strip_ends_def)
  then have "x \<in> set (dropWhile P s)"
    using set_dropWhileD by fastforce
  then show ?thesis
    by (rule set_dropWhileD)
qed

lemma strip_ends_no_ends:
  assumes "strip_ends P s \<noteq> []"
  shows "\<not> P (hd (strip_ends P s)) \<and> \<not> P (last (strip_ends P s))"
proof -
  let ?d = "dropWhile P s"
  have d: "?d \<noteq> []"
  proof
    assume "?d = []"
    then have "strip_ends P s = []"
      by (simp only: strip_ends_def) simp
    with assms show False by simp
  qed
  then obtain x t where xt: "?d = x # t"
    by (cases ?d) auto
  have nx: "\<not> P x"
    using hd_dropWhile [OF d] xt by simp
  have "strip_ends P s = x # rev (dropWhile P (rev t))"
    using rstrip_keep [of P x "[]" t] nx xt by (simp add: strip_ends_def)
  then have h: "hd (strip_ends P s) = x"
    by simp
  have r: "dropWhile P (rev ?d) \<noteq> []"
  proof
    assume "dropWhile P (rev ?d) = []"
    then have "strip_ends P s = []"
      by (simp only: strip_ends_def) simp
    with assms show False by simp
  qed
  have "last (strip_ends P s) = hd (dropWhile P (rev ?d))"
    using r by (simp add: strip_ends_def last_rev)
  with hd_dropWhile [OF r] h nx show ?thesis
    by simp
qed

lemma strip_ends_idem: "strip_ends P (strip_ends P s) = strip_ends P s"
  using strip_ends_no_ends [of P s] by (intro strip_ends_fixed) auto

lemma not_isspace_comma: "\<not> isspace comma"
  by (simp add: isspace_def comma_def)


lemma comma_in_clean_line: "comma \<in> set (clean_line line) \<longleftrightarrow> comma \<in> set line"
proof
  assume "comma \<in> set (clean_line line)"
  then show "comma \<in> set line"
    by (auto simp: clean_line_def py_strip_def py_strip_chars_def dest!: set_strip_ends_subset)
next
  assume "comma \<in> set line"
  then have "comma \<in> set (py_strip line)"
    by (simp add: py_strip_def set_strip_ends_keep not_isspace_comma)
  then show "comma \<in> set (clean_line line)"
    by (simp add: clean_line_def py_strip_chars_def set_strip_ends_keep comma_def dquote_def)
qed

lemma py_split1_first:
  assumes "sep \<in> set s"
  shows "\<exists>a b. s = a @ sep # b \<and> sep \<notin> set a \<and> py_split1 sep s = [a, b]"
proof -
  let ?a = "takeWhile (\<lambda>c. c \<noteq> sep) s" and ?d = "dropWhile (\<lambda>c. c \<noteq> sep) s"
  from assms have "?d \<noteq> []" by auto
  then have "hd ?d = sep"
    using hd_dropWhile [of "\<lambda>c. c \<noteq> sep" s] by simp
  with \<open>?d \<noteq> []\<close> have d: "?d = sep # tl ?d"
    by (cases ?d) auto
  have "s = ?a @ ?d" by simp
  with d have "s = ?a @ sep # tl ?d" by simp
  moreover have "sep \<notin> set ?a"
    by (auto dest: set_takeWhileD)
  moreover have "py_split1 sep s = [?a, tl ?d]"
    using assms by (simp add: py_split1_def)
  ultimately show ?thesis by blast
qed

lemma py_split1_unique:
  "sep \<notin> set a \<Longrightarrow> py_split1 sep (a @ sep # b) = [a, b]"
  by (induction a) (auto simp: py_split1_def)

lemma parse_line_cases:
  "parse_line line =
     (if comma \<in> set line
      then Entry (py_strip (takeWhile (\<lambda>c. c \<noteq> comma) (clean_line line)))
                 (py_strip (tl (dropWhile (\<lambda>c. c \<noteq> comma) (clean_line line))))
      else Skipped)"
  by (simp add: parse_line_def py_split1_def comma_in_clean_line Let_def)

section \<open>The reader\<close>

lemmas reader_eval = lit_def comma_def dquote_def newline_def isspace_def strip_ends_def
  py_strip_def py_strip_chars_def py_split1_def clean_line_def parse_line_def

lemma parse_line_Entry:
  assumes "comma \<in> set line"
  shows "\<exists>a b. clean_line line = a @ comma # b \<and> comma \<notin> set a \<and>
           parse_line line = Entry (py_strip a) (py_strip b)"
proof -
  from assms have c: "comma \<in> set (clean_line line)"
    by (simp add: comma_in_clean_line)
  from py_split1_first [OF c] obtain a b where
    ab: "clean_line line = a @ comma # b" "comma \<notin> set a" "py_split1 comma (clean_line line) = [a, b]"
    by blast
  from c ab(3) have "parse_line line = Entry (py_strip a) (py_strip b)"
    by (simp add: parse_line_def)
  with ab show ?thesis by blast
qed

text \<open>
  Claim C4. A line that contains a comma is split once, at the first comma of the cleaned
  line: what stands before it becomes the identifier and everything after it, further
  commas included, becomes the text, each trimmed of whitespace on its own. The line
  \<open>a, b, c\<close> gives the identifier \<open>a\<close> and the text \<open>b, c\<close>.
\<close>

theorem C4_split_at_first_separator:
  "(comma \<in> set line \<longrightarrow>
      (\<exists>a b. clean_line line = a @ comma # b \<and> comma \<notin> set a \<and>
             parse_line line = Entry (py_strip a) (py_strip b))) \<and>
   parse_line (lit ''a, b, c'') = Entry (lit ''a'') (lit ''b, c'')"
proof
  show "comma \<in> set line \<longrightarrow>
      (\<exists>a b. clean_line line = a @ comma # b \<and> comma \<notin> set a \<and>
             parse_line line = Entry (py_strip a) (py_strip b))"
    using parse_line_Entry by blast
  show "parse_line (lit ''a, b, c'') = Entry (lit ''a'') (lit ''b, c'')"
    by (simp add: reader_eval)
qed

theorem C4_witness:
  "comma \<in> set (lit ''k1, hello, world'') \<and>
   (\<exists>a b. clean_line (lit ''k1, hello, world'') = a @ comma # b \<and> comma \<notin> set a \<and>
          parse_line (lit ''k1, hello, world'') = Entry (py_strip a) (py_strip b)) \<and>
   parse_line (lit ''a, b, c'') = Entry (lit ''a'') (lit ''b, c'')"
proof -
  have h: "comma \<in> set (lit ''k1, hello, world'')"
    by (simp add: lit_def comma_def)
  with C4_split_at_first_separator [of "lit ''k1, hello, world''"] show ?thesis
    by blast
qed


text \<open>
  Claim C6. A line whose cleaned form has no comma produces no entry and leaves the world
  as it is; no line at all makes the reader raise (the unpacking of the split never fails);
  an empty file has no lines, gives no entries and the loop returns at once.
\<close>

theorem C6_no_separator_skipped:
  "(comma \<notin> set (clean_line line) \<longrightarrow>
      parse_line line = Skipped \<and> loop_body e line w = Returned w) \<and>
   parse_line line \<noteq> UnpackError \<and>
   file_lines [] = [] \<and> entries (file_lines []) = [] \<and>
   main_loop e (file_lines []) w = Returned w"
proof -
  have "parse_line line \<noteq> UnpackError"
    by (simp add: parse_line_cases)
  moreover have "comma \<notin> set (clean_line line) \<longrightarrow>
      parse_line line = Skipped \<and> loop_body e line w = Returned w"
    by (simp add: parse_line_def loop_body_def)
  moreover have "file_lines [] = []"
    by (simp add: file_lines_def)
  ultimately show ?thesis by simp
qed

theorem C6_witness:
  "comma \<notin> set (clean_line (lit ''no separator here'')) \<and>
   parse_line (lit ''no separator here'') = Skipped"
proof -
  have h: "comma \<notin> set (clean_line (lit ''no separator here''))"
    by (simp add: reader_eval)
  with C6_no_separator_skipped [of "lit ''no separator here''"] show ?thesis
    by blast
qed











section \<open>Synthesis and transcoding\<close>

lemmas run_defs = synthesize_prompt_def requests_post_def and_then_def open_wb_write_def
  convert_to_ulaw_def subprocess_run_def os_remove_def py_print_def Let_def



lemmas sample_defs = env_ok_def env_unauthorized_def env_tool_fails_with_output_def
  env_tool_fails_untouched_def env_tool_missing_def env_tool_noop_def api_answers_def any_path_writable_def
  tool_writes_output_def tool_touches_nothing_def tool_missing_def empty_world_def stale_world_def

lemmas path_eval = temp_path_of_def final_path_of_def os_path_join_def OUTPUT_DIR_def lit_def slash_def

text \<open>
  Claim C8. The transcoder starts one child process, always with the same arguments around
  the two paths: \<open>ffmpeg -y -i input -ar 8000 -ac 1 -f wav -acodec pcm_mulaw output\<close>.
  Nothing the child writes to its streams reaches the console, and the call returns in the
  same way whatever the exit status is.
\<close>

theorem C8_fixed_transcoder_arguments:
  "(run_process e [lit ''ffmpeg'', lit ''-y'', lit ''-i'', input_path, lit ''-ar'',
       lit ''8000'', lit ''-ac'', lit ''1'', lit ''-f'', lit ''wav'', lit ''-acodec'',
       lit ''pcm_mulaw'', output_path] (files w) = Exited code fs so se \<longrightarrow>
     convert_to_ulaw e input_path output_path w =
       Returned \<lparr>files = fs, console = console w, requests = requests w,
                 commands = commands w @ [[lit ''ffmpeg'', lit ''-y'', lit ''-i'', input_path,
                   lit ''-ar'', lit ''8000'', lit ''-ac'', lit ''1'', lit ''-f'', lit ''wav'',
                   lit ''-acodec'', lit ''pcm_mulaw'', output_path]]\<rparr>) \<and>
   (run_process e [lit ''ffmpeg'', lit ''-y'', lit ''-i'', input_path, lit ''-ar'',
       lit ''8000'', lit ''-ac'', lit ''1'', lit ''-f'', lit ''wav'', lit ''-acodec'',
       lit ''pcm_mulaw'', output_path] (files w) = SpawnFailed \<longrightarrow>
     convert_to_ulaw e input_path output_path w = Raised OSError w)"
  by (simp add: convert_to_ulaw_def subprocess_run_def ffmpeg_command_def)

theorem C8_witness:
  "run_process env_tool_fails_untouched [lit ''ffmpeg'', lit ''-y'', lit ''-i'', lit ''in.wav'',
       lit ''-ar'', lit ''8000'', lit ''-ac'', lit ''1'', lit ''-f'', lit ''wav'', lit ''-acodec'',
       lit ''pcm_mulaw'', lit ''out.wav''] (files empty_world)
     = Exited 1 (files empty_world) (lit ''out'') (lit ''err'') \<and>
   console (world_of (convert_to_ulaw env_tool_fails_untouched (lit ''in.wav'') (lit ''out.wav'')
     empty_world)) = [] \<and>
   raised (convert_to_ulaw env_tool_fails_untouched (lit ''in.wav'') (lit ''out.wav'')
     empty_world) = None"
proof -
  have h: "run_process env_tool_fails_untouched [lit ''ffmpeg'', lit ''-y'', lit ''-i'', lit ''in.wav'',
       lit ''-ar'', lit ''8000'', lit ''-ac'', lit ''1'', lit ''-f'', lit ''wav'', lit ''-acodec'',
       lit ''pcm_mulaw'', lit ''out.wav''] (files empty_world)
     = Exited 1 (files empty_world) (lit ''out'') (lit ''err'')"
    by (simp add: env_tool_fails_untouched_def tool_touches_nothing_def)
  from C8_fixed_transcoder_arguments [of env_tool_fails_untouched "lit ''in.wav''" "lit ''out.wav''"
      empty_world 1 "files empty_world" "lit ''out''" "lit ''err''"] h
  have "convert_to_ulaw env_tool_fails_untouched (lit ''in.wav'') (lit ''out.wav'') empty_world =
       Returned \<lparr>files = files empty_world, console = console empty_world,
                 requests = requests empty_world,
                 commands = commands empty_world @ [[lit ''ffmpeg'', lit ''-y'', lit ''-i'',
                   lit ''in.wav'', lit ''-ar'', lit ''8000'', lit ''-ac'', lit ''1'', lit ''-f'',
                   lit ''wav'', lit ''-acodec'', lit ''pcm_mulaw'', lit ''out.wav'']]\<rparr>"
    by blast
  with h show ?thesis
    by (simp add: empty_world_def)
qed








text \<open>
  Claim C9. Both artifacts are to lie under the output directory, the folder where the
  final files are saved according to the comment on \<open>OUTPUT_DIR\<close>, for any identifier
  the reader produces. The script does not keep to this: the line \<open>/tmp/x,hello\<close> gives
  the identifier \<open>/tmp/x\<close>, the join drops the output directory, and the files are
  written at \<open>/tmp/x_temp.wav\<close> and \<open>/tmp/x.wav\<close>; the line \<open>../escape,hello\<close>
  gives the paths \<open>output_wav/../escape_temp.wav\<close> and \<open>output_wav/../escape.wav\<close>,
  which name files beside the output directory.
\<close>

theorem C9_identifier_escapes_output_dir:
  "parse_line (lit ''/tmp/x,hello'') = Entry (lit ''/tmp/x'') (lit ''hello'') \<and>
   final_path_of (lit ''/tmp/x'') = lit ''/tmp/x.wav'' \<and>
   temp_path_of (lit ''/tmp/x'') = lit ''/tmp/x_temp.wav'' \<and>
   take (length OUTPUT_DIR) (final_path_of (lit ''/tmp/x'')) \<noteq> OUTPUT_DIR \<and>
   take (length OUTPUT_DIR) (temp_path_of (lit ''/tmp/x'')) \<noteq> OUTPUT_DIR \<and>
   raised (loop_body env_ok (lit ''/tmp/x,hello'') empty_world) = None \<and>
   files (world_of (loop_body env_ok (lit ''/tmp/x,hello'') empty_world)) (lit ''/tmp/x.wav'')
     = Some [1, 2] \<and>
   commands (world_of (loop_body env_ok (lit ''/tmp/x,hello'') empty_world))
     = [[lit ''ffmpeg'', lit ''-y'', lit ''-i'', lit ''/tmp/x_temp.wav'', lit ''-ar'',
         lit ''8000'', lit ''-ac'', lit ''1'', lit ''-f'', lit ''wav'', lit ''-acodec'',
         lit ''pcm_mulaw'', lit ''/tmp/x.wav'']] \<and>
   parse_line (lit ''../escape,hello'') = Entry (lit ''../escape'') (lit ''hello'') \<and>
   final_path_of (lit ''../escape'') = lit ''output_wav/../escape.wav'' \<and>
   temp_path_of (lit ''../escape'') = lit ''output_wav/../escape_temp.wav''"
  by (simp add: reader_eval path_eval run_defs sample_defs ffmpeg_command_def loop_body_def)





end
